theory Spec2Isabelle
  imports Main "HOL-Library.Word"
begin

unbundle bit_operations_syntax

section \<open>The network router of the API server (api/server/router/network/network.go)\<close>

text \<open>
  The handlers of \<^verbatim>\<open>network.go\<close> are written against the interfaces of libnetwork
  (\<^verbatim>\<open>NetworkController\<close>, \<^verbatim>\<open>Network\<close>, \<^verbatim>\<open>Endpoint\<close>, \<^verbatim>\<open>Sandbox\<close>,
  \<^verbatim>\<open>InterfaceInfo\<close>). An interface value is modelled by what its methods return: a record
  for the read-only ones, and for the controller, whose \<^verbatim>\<open>NewNetwork\<close> changes it, a
  table of methods over a state that is passed explicitly. A Go pair \<^verbatim>\<open>(Network, error)\<close>
  is a pair of options, \<open>None\<close> for \<^verbatim>\<open>nil\<close>.
\<close>

subsection \<open>Values of libnetwork and of the API types\<close>

type_synonym byte = "8 word"

text \<open>\<^verbatim>\<open>net.IPNet\<close>: an address and a mask, both byte slices.\<close>

record IPNet =
  IP :: "byte list"
  Mask :: "byte list"

text \<open>\<^verbatim>\<open>libnetwork.InterfaceInfo\<close>; \<^verbatim>\<open>MacAddress()\<close> may be \<^verbatim>\<open>nil\<close>.\<close>

record InterfaceInfo =
  ifMacAddress :: "byte list option"
  ifAddress :: IPNet
  ifAddressIPv6 :: IPNet

record Sandbox =
  ContainerID :: string

text \<open>\<^verbatim>\<open>libnetwork.EndpointInfo\<close>: \<^verbatim>\<open>Sandbox()\<close> and \<^verbatim>\<open>Iface()\<close> may be \<^verbatim>\<open>nil\<close>.\<close>

record EndpointInfo =
  infoSandbox :: "Sandbox option"
  infoIface :: "InterfaceInfo option"

record Endpoint =
  epID :: string
  epInfo :: EndpointInfo

record Network =
  nwName :: string
  nwID :: string
  nwType :: string
  nwEndpoints :: "Endpoint list"

text \<open>\<^verbatim>\<open>types.EndpointResource\<close> and \<^verbatim>\<open>types.NetworkResource\<close>. A Go map that was never
  made is \<^verbatim>\<open>nil\<close>: \<open>Containers\<close> is an option.\<close>

record EndpointResource =
  EndpointID :: string
  MacAddress :: string
  IPv4Address :: string
  IPv6Address :: string

record NetworkResource =
  Name :: string
  ID :: string
  Driver :: string
  Containers :: "(string \<rightharpoonup> EndpointResource) option"

text \<open>Values decoded from JSON into \<^verbatim>\<open>interface{}\<close>.\<close>

datatype jvalue =
  JNull
  | JBool bool
  | JNumber int
  | JString string
  | JArray "jvalue list"
  | JObject "(string \<times> jvalue) list"

text \<open>\<^verbatim>\<open>types.NetworkCreate\<close>, the body of a create request; \<open>Options\<close> may be \<^verbatim>\<open>nil\<close>.\<close>

record NetworkCreate =
  ncName :: string
  ncDriver :: string
  CheckDuplicate :: bool
  Options :: "(string \<rightharpoonup> jvalue) option"

record NetworkCreateResponse =
  respID :: string
  Warning :: string

text \<open>\<^verbatim>\<open>libnetwork.NetworkOption\<close>: the handlers build only the generic one.\<close>

datatype NetworkOption = NetworkOptionGeneric "string \<rightharpoonup> jvalue"

text \<open>The errors the handlers return or inspect. \<open>OtherError\<close> stands for an error of a
  collaborator (form parsing, JSON decoding, the controller) that the handlers pass on.\<close>

datatype error =
  ErrNoSuchNetwork string
  | NetworkNameError string
  | ErrNoNetController
  | ErrUnexpectedSelector
  | OtherError string

text \<open>\<^verbatim>\<open>c.Config().Daemon\<close>: the defaults the daemon was configured with.\<close>

record DaemonCfg =
  DefaultNetwork :: string
  DefaultDriver :: string

text \<open>
  The methods of \<^verbatim>\<open>libnetwork.NetworkController\<close> that the handlers call, over a
  controller state \<open>'c\<close>. The implementation is not part of \<^verbatim>\<open>network.go\<close>: the handlers
  are modelled for every implementation.
\<close>

record 'c NetworkController =
  NetworkByID :: "'c \<Rightarrow> string \<Rightarrow> Network option \<times> error option"
  NetworkByName :: "'c \<Rightarrow> string \<Rightarrow> Network option \<times> error option"
  Config :: "'c \<Rightarrow> DaemonCfg"
  NewNetwork :: "'c \<Rightarrow> string \<Rightarrow> string \<Rightarrow> NetworkOption list
                  \<Rightarrow> (Network option \<times> error option) \<times> 'c"

text \<open>A request as the handler sees it: what \<^verbatim>\<open>ParseForm\<close>, \<^verbatim>\<open>CheckForJSON\<close> and the
  JSON decoder make of it.\<close>

record Request =
  ParseForm :: "error option"
  CheckForJSON :: "error option"
  Decode :: "error + NetworkCreate"

text \<open>What a handler leaves: the error it returns, the status and body it wrote with
  \<^verbatim>\<open>WriteJSON\<close>, or a panic (a method called on a \<^verbatim>\<open>nil\<close> interface).\<close>

datatype 'a outcome = Failed error | Wrote nat 'a | Panicked

subsection \<open>findNetwork\<close>

text \<open>\<^verbatim>\<open>const ( byID = iota; byName )\<close>\<close>

definition byID :: int where
  "byID = 0"

definition byName :: int where
  "byName = 1"

definition findNetwork ::
  "'c NetworkController \<Rightarrow> 'c \<Rightarrow> string \<Rightarrow> int \<Rightarrow> Network option \<times> error option" where
  "findNetwork ops c s by_sel =
     (if by_sel = byID then NetworkByID ops c s
      else if by_sel = byName then
        (let s' = (if s = [] then DefaultNetwork (Config ops c) else s)
         in NetworkByName ops c s')
      else (None, Some ErrUnexpectedSelector))"

subsection \<open>buildNetworkResource\<close>

text \<open>
  \<^verbatim>\<open>mac.String()\<close> and \<^verbatim>\<open>(&ip).String()\<close> are the standard library's formatting
  functions; they are parameters \<open>macString\<close> and \<open>ipNetString\<close>.
  The body of the loop over \<^verbatim>\<open>nw.Endpoints()\<close>: an endpoint without a sandbox is skipped
  (\<^verbatim>\<open>continue\<close>), any other is stored under its sandbox's container ID.
\<close>

definition endpointResource ::
  "(byte list \<Rightarrow> string) \<Rightarrow> (IPNet \<Rightarrow> string) \<Rightarrow> Endpoint \<Rightarrow> EndpointResource" where
  "endpointResource macString ipNetString e =
     (let er = \<lparr>EndpointID = epID e, MacAddress = [], IPv4Address = [], IPv6Address = []\<rparr>
      in case infoIface (epInfo e) of
           None \<Rightarrow> er
         | Some iface \<Rightarrow>
             (let er1 = (case ifMacAddress iface of
                           None \<Rightarrow> er
                         | Some mac \<Rightarrow> er\<lparr>MacAddress := macString mac\<rparr>);
                  er2 = (if length (IP (ifAddress iface)) > 0
                         then er1\<lparr>IPv4Address := ipNetString (ifAddress iface)\<rparr> else er1);
                  er3 = (if length (IP (ifAddressIPv6 iface)) > 0
                         then er2\<lparr>IPv6Address := ipNetString (ifAddressIPv6 iface)\<rparr> else er2)
              in er3))"

definition addContainer ::
  "(byte list \<Rightarrow> string) \<Rightarrow> (IPNet \<Rightarrow> string) \<Rightarrow> Endpoint
     \<Rightarrow> (string \<rightharpoonup> EndpointResource) \<Rightarrow> (string \<rightharpoonup> EndpointResource)" where
  "addContainer macString ipNetString e m =
     (case infoSandbox (epInfo e) of
        None \<Rightarrow> m
      | Some sb \<Rightarrow> m(ContainerID sb \<mapsto> endpointResource macString ipNetString e))"

definition buildNetworkResource ::
  "(byte list \<Rightarrow> string) \<Rightarrow> (IPNet \<Rightarrow> string) \<Rightarrow> Network option \<Rightarrow> NetworkResource" where
  "buildNetworkResource macString ipNetString nw =
     (case nw of
        None \<Rightarrow> \<lparr>Name = [], ID = [], Driver = [], Containers = None\<rparr>
      | Some n \<Rightarrow>
          \<lparr>Name = nwName n, ID = nwID n, Driver = nwType n,
           Containers = Some (fold (addContainer macString ipNetString) (nwEndpoints n) Map.empty)\<rparr>)"

subsection \<open>postNetworkCreate\<close>

text \<open>\<^verbatim>\<open>netlabel.GenericData\<close>, the key of the generic options (a constant of libnetwork).\<close>

definition GenericData :: string where
  "GenericData = ''com.docker.network.generic''"

definition processCreateDefaults ::
  "'c NetworkController \<Rightarrow> 'c \<Rightarrow> NetworkCreate \<Rightarrow> NetworkCreate" where
  "processCreateDefaults ops c n =
     (let n1 = (if ncDriver n = [] then n\<lparr>ncDriver := DefaultDriver (Config ops c)\<rparr> else n);
          opts = (case Options n1 of None \<Rightarrow> Map.empty | Some m \<Rightarrow> m);
          genericData = (case opts GenericData of None \<Rightarrow> JObject [] | Some g \<Rightarrow> g)
      in n1\<lparr>Options := Some (opts(GenericData \<mapsto> genericData))\<rparr>)"

definition parseOptions :: "(string \<rightharpoonup> jvalue) option \<Rightarrow> NetworkOption list" where
  "parseOptions options =
     (case options of None \<Rightarrow> [] | Some m \<Rightarrow> [NetworkOptionGeneric m])"

text \<open>\<^verbatim>\<open>fmt.Sprintf("Network with name %s (id : %s) already exists", nw.Name(), nw.ID())\<close>\<close>

definition duplicateWarning :: "Network \<Rightarrow> string" where
  "duplicateWarning nw =
     ''Network with name '' @ nwName nw @ '' (id : '' @ nwID nw @ '') already exists''"

definition isErrNoSuchNetwork :: "error \<Rightarrow> bool" where
  "isErrNoSuchNetwork e = (case e of ErrNoSuchNetwork _ \<Rightarrow> True | _ \<Rightarrow> False)"

text \<open>
  The part of \<^verbatim>\<open>postNetworkCreate\<close> after the request body is decoded. It returns what
  the handler leaves and the controller's state. \<^verbatim>\<open>http.StatusCreated\<close> is 201. Were
  \<^verbatim>\<open>NewNetwork\<close> to return neither a network nor an error, \<^verbatim>\<open>nw.ID()\<close> would panic.
\<close>

definition createNetwork ::
  "'c NetworkController \<Rightarrow> 'c \<Rightarrow> NetworkCreate \<Rightarrow> NetworkCreateResponse outcome \<times> 'c" where
  "createNetwork ops c create =
     (case findNetwork ops c (ncName create) byName of (nw, err) \<Rightarrow>
        if err \<noteq> None \<and> \<not> isErrNoSuchNetwork (the err) then (Failed (the err), c)
        else if nw \<noteq> None \<and> CheckDuplicate create
          then (Failed (NetworkNameError (ncName create)), c)
        else
          (let warning = (case nw of None \<Rightarrow> [] | Some n \<Rightarrow> duplicateWarning n);
               create' = processCreateDefaults ops c create
           in (case NewNetwork ops c (ncDriver create') (ncName create')
                      (parseOptions (Options create')) of
                 ((_, Some err'), c') \<Rightarrow> (Failed err', c')
               | ((None, None), c') \<Rightarrow> (Panicked, c')
               | ((Some nw', None), c') \<Rightarrow>
                   (Wrote 201 \<lparr>respID = nwID nw', Warning = warning\<rparr>, c'))))"

text \<open>The handler of the router (\<^verbatim>\<open>func (n *networkRouter) postNetworkCreate\<close>).\<close>

definition postNetworkCreate ::
  "'c NetworkController \<Rightarrow> 'c \<Rightarrow> Request \<Rightarrow> NetworkCreateResponse outcome \<times> 'c" where
  "postNetworkCreate ops c r =
     (case ParseForm r of
        Some e \<Rightarrow> (Failed e, c)
      | None \<Rightarrow>
         (case CheckForJSON r of
            Some e \<Rightarrow> (Failed e, c)
          | None \<Rightarrow>
             (case Decode r of
                Inl e \<Rightarrow> (Failed e, c)
              | Inr create \<Rightarrow> createNetwork ops c create)))"

text \<open>The older handler of the server (\<^verbatim>\<open>func (s *Server) postNetworkCreate\<close>): the same,
  after a check that the daemon has a network controller at all.\<close>

definition Server_postNetworkCreate ::
  "'c NetworkController \<Rightarrow> 'c option \<Rightarrow> Request \<Rightarrow> NetworkCreateResponse outcome \<times> 'c option" where
  "Server_postNetworkCreate ops nc r =
     (case ParseForm r of
        Some e \<Rightarrow> (Failed e, nc)
      | None \<Rightarrow>
         (case CheckForJSON r of
            Some e \<Rightarrow> (Failed e, nc)
          | None \<Rightarrow>
             (case nc of
                None \<Rightarrow> (Failed ErrNoNetController, nc)
              | Some c \<Rightarrow>
                 (case Decode r of
                    Inl e \<Rightarrow> (Failed e, nc)
                  | Inr create \<Rightarrow>
                     (case createNetwork ops c create of (out, c') \<Rightarrow> (out, Some c'))))))"

subsection \<open>Notions used to state the properties of the router\<close>

text \<open>The endpoint is joined to a sandbox whose container ID is \<open>k\<close>.\<close>

definition joinedTo :: "string \<Rightarrow> Endpoint \<Rightarrow> bool" where
  "joinedTo k e =
     (case infoSandbox (epInfo e) of None \<Rightarrow> False | Some sb \<Rightarrow> ContainerID sb = k)"

text \<open>
  An in-memory controller on which the handlers can be run: a list of networks, looked up
  by name or ID, to which \<^verbatim>\<open>NewNetwork\<close> appends. libnetwork's own controller is not
  among the sources; the theorems below hold for every controller and use this one only
  at concrete inputs.
\<close>

record registry =
  regConfig :: DaemonCfg
  regNetworks :: "Network list"

definition regNetworkByName :: "registry \<Rightarrow> string \<Rightarrow> Network option \<times> error option" where
  "regNetworkByName c s =
     (case filter (\<lambda>n. nwName n = s) (regNetworks c) of
        [] \<Rightarrow> (None, Some (ErrNoSuchNetwork s))
      | n # _ \<Rightarrow> (Some n, None))"

definition regNetworkByID :: "registry \<Rightarrow> string \<Rightarrow> Network option \<times> error option" where
  "regNetworkByID c s =
     (case filter (\<lambda>n. nwID n = s) (regNetworks c) of
        [] \<Rightarrow> (None, Some (ErrNoSuchNetwork s))
      | n # _ \<Rightarrow> (Some n, None))"

definition regNewNetwork ::
  "registry \<Rightarrow> string \<Rightarrow> string \<Rightarrow> NetworkOption list
     \<Rightarrow> (Network option \<times> error option) \<times> registry" where
  "regNewNetwork c networkType name options =
     (let n = \<lparr>nwName = name, nwID = ''id'' @ replicate (length (regNetworks c)) (CHR ''x''),
                nwType = networkType, nwEndpoints = []\<rparr>
      in ((Some n, None), c\<lparr>regNetworks := regNetworks c @ [n]\<rparr>))"

definition regOps :: "registry NetworkController" where
  "regOps = \<lparr>NetworkByID = regNetworkByID, NetworkByName = regNetworkByName,
             Config = regConfig, NewNetwork = regNewNetwork\<rparr>"

text \<open>A registry holding the default network and a network named \<open>test\<close>.\<close>

definition reg1 :: registry where
  "reg1 = \<lparr>regConfig = \<lparr>DefaultNetwork = ''bridge'', DefaultDriver = ''bridge''\<rparr>,
           regNetworks =
             [\<lparr>nwName = ''bridge'', nwID = ''id'', nwType = ''bridge'', nwEndpoints = []\<rparr>,
              \<lparr>nwName = ''test'', nwID = ''idx'', nwType = ''bridge'', nwEndpoints = []\<rparr>]\<rparr>"

text \<open>A create request for the name \<open>test\<close>.\<close>

definition createTest :: "bool \<Rightarrow> NetworkCreate" where
  "createTest dup = \<lparr>ncName = ''test'', ncDriver = [], CheckDuplicate = dup, Options = None\<rparr>"

definition req1 :: "bool \<Rightarrow> Request" where
  "req1 dup = \<lparr>ParseForm = None, CheckForJSON = None, Decode = Inr (createTest dup)\<rparr>"

text \<open>A network with three endpoints: the first joined to container \<open>c1\<close>, with a MAC,
  an IPv4 and an IPv6 address; the second not joined; the third joined to container \<open>c3\<close>
  and without an interface.\<close>

definition nw3 :: Network where
  "nw3 = \<lparr>nwName = ''test'', nwID = ''idx'', nwType = ''bridge'',
     nwEndpoints =
       [\<lparr>epID = ''ep1'',
         epInfo = \<lparr>infoSandbox = Some \<lparr>ContainerID = ''c1''\<rparr>,
                   infoIface = Some \<lparr>ifMacAddress = Some [2, 66, 172, 17, 0, 2],
                                      ifAddress = \<lparr>IP = [172, 17, 0, 2], Mask = [255, 255, 0, 0]\<rparr>,
                                      ifAddressIPv6 =
                                        \<lparr>IP = [254, 128, 0, 0, 0, 0, 0, 0, 0, 0, 0, 0, 0, 0, 0, 66],
                                         Mask = [255, 255, 255, 255, 255, 255, 255, 255,
                                                 0, 0, 0, 0, 0, 0, 0, 0]\<rparr>\<rparr>\<rparr>\<rparr>,
        \<lparr>epID = ''ep2'',
         epInfo = \<lparr>infoSandbox = None,
                   infoIface = Some \<lparr>ifMacAddress = Some [2, 66, 172, 17, 0, 3],
                                      ifAddress = \<lparr>IP = [172, 17, 0, 3], Mask = [255, 255, 0, 0]\<rparr>,
                                      ifAddressIPv6 = \<lparr>IP = [], Mask = []\<rparr>\<rparr>\<rparr>\<rparr>,
        \<lparr>epID = ''ep3'',
         epInfo = \<lparr>infoSandbox = Some \<lparr>ContainerID = ''c3''\<rparr>, infoIface = None\<rparr>\<rparr>]\<rparr>"

text \<open>The container IDs of the sandboxes the endpoints are joined to, in the endpoints'
  order.\<close>

definition joinedContainers :: "Endpoint list \<Rightarrow> string list" where
  "joinedContainers eps =
     concat (map (\<lambda>e. case infoSandbox (epInfo e) of None \<Rightarrow> [] | Some sb \<Rightarrow> [ContainerID sb])
               eps)"

text \<open>
  Formatting functions for concrete inputs. \<open>macHex\<close> is \<^verbatim>\<open>HardwareAddr.String\<close>: the
  bytes in hexadecimal, separated by colons. \<open>netHex\<close> shows every byte of the address
  and of the mask in hexadecimal; it stands in for \<^verbatim>\<open>IPNet.String\<close>.
\<close>

definition hexByte :: "byte \<Rightarrow> string" where
  "hexByte b = [''0123456789abcdef'' ! (unat b div 16), ''0123456789abcdef'' ! (unat b mod 16)]"

definition macHex :: "byte list \<Rightarrow> string" where
  "macHex a = (case a of [] \<Rightarrow> [] | b # bs \<Rightarrow> hexByte b @ concat (map (\<lambda>x. CHR '':'' # hexByte x) bs))"

definition netHex :: "IPNet \<Rightarrow> string" where
  "netHex n = concat (map hexByte (IP n)) @ ''/'' @ concat (map hexByte (Mask n))"

text \<open>A controller like \<open>regOps\<close>, except that its \<^verbatim>\<open>NewNetwork\<close> refuses a name that a
  network of the registry already has.\<close>

definition strictNewNetwork ::
  "registry \<Rightarrow> string \<Rightarrow> string \<Rightarrow> NetworkOption list
     \<Rightarrow> (Network option \<times> error option) \<times> registry" where
  "strictNewNetwork c networkType name options =
     (if list_ex (\<lambda>n. nwName n = name) (regNetworks c)
      then ((None, Some (NetworkNameError name)), c)
      else regNewNetwork c networkType name options)"

definition strictOps :: "registry NetworkController" where
  "strictOps = \<lparr>NetworkByID = regNetworkByID, NetworkByName = regNetworkByName,
                Config = regConfig, NewNetwork = strictNewNetwork\<rparr>"

text \<open>A network with two endpoints joined to the same container \<open>c1\<close>.\<close>

definition nw2 :: Network where
  "nw2 = \<lparr>nwName = ''test'', nwID = ''idx'', nwType = ''bridge'',
     nwEndpoints =
       [\<lparr>epID = ''ep1'',
         epInfo = \<lparr>infoSandbox = Some \<lparr>ContainerID = ''c1''\<rparr>, infoIface = None\<rparr>\<rparr>,
        \<lparr>epID = ''ep2'',
         epInfo = \<lparr>infoSandbox = Some \<lparr>ContainerID = ''c1''\<rparr>, infoIface = None\<rparr>\<rparr>]\<rparr>"

section \<open>The bridge network driver: configuration and address blocks\<close>

text \<open>
  The bridge driver of libnetwork is vendored into the repository, but of its package only
  the test file is among the sources. The data below is read off those tests (the fields
  of \<^verbatim>\<open>networkConfiguration\<close> and \<^verbatim>\<open>configuration\<close>, the error kinds they assert); the
  operations are modelled from the specification, each one marked so.
\<close>

text \<open>The error kinds of the specification's section 7 (\<^verbatim>\<open>types.ForbiddenError\<close>,
  \<^verbatim>\<open>types.BadRequestError\<close>, ... in the tests).\<close>

datatype errKind = NotFound | Forbidden | BadRequest | Conflict | ResourceExhausted | InternalError

text \<open>
  A CIDR block (\<^verbatim>\<open>*net.IPNet\<close> holding an address and a prefix mask): the address as a
  machine word, 32 bits wide for IPv4 and 128 for IPv6, and the length of the prefix. As
  in \<^verbatim>\<open>172.16.0.10/16\<close>, the address need not be the block's first one.
\<close>

record 'a cidr =
  cidrIP :: 'a
  cidrLen :: nat

text \<open>The number of address bits outside the prefix.\<close>

definition hostBits :: "('a::len) word cidr \<Rightarrow> nat" where
  "hostBits c = LENGTH('a) - cidrLen c"

text \<open>\<^verbatim>\<open>IPNet.Contains\<close>: the address agrees with the block's on every bit of the
  prefix.\<close>

definition contains :: "('a::len) word cidr \<Rightarrow> 'a word \<Rightarrow> bool" where
  "contains c a = (drop_bit (hostBits c) a = drop_bit (hostBits c) (cidrIP c))"

text \<open>
  Modelled from the spec: the check that a fixed sub-CIDR "must be fully contained in the
  network's address block" is part of the driver's \<^verbatim>\<open>Validate\<close>, which is not among the
  sources. Here: the prefix of \<open>f\<close> is at least as long as that of \<open>n\<close>, and the address
  of \<open>f\<close> lies in \<open>n\<close>. That this is containment of the sets of addresses is proved below
  (\<open>subnetOf_iff\<close>).
\<close>

definition subnetOf :: "('a::len) word cidr \<Rightarrow> 'a word cidr \<Rightarrow> bool" where
  "subnetOf f n = (hostBits f \<le> hostBits n \<and> contains n (cidrIP f))"

text \<open>Addresses written the usual way: four bytes, or eight groups of sixteen bits.\<close>

definition ipv4 :: "nat \<Rightarrow> nat \<Rightarrow> nat \<Rightarrow> nat \<Rightarrow> 32 word" where
  "ipv4 a b c d = of_nat (((a * 256 + b) * 256 + c) * 256 + d)"

definition ipv6 :: "nat list \<Rightarrow> 128 word" where
  "ipv6 groups = of_nat (foldl (\<lambda>acc g. acc * 65536 + g) 0 groups)"

text \<open>\<^verbatim>\<open>networkConfiguration\<close>, with the fields the tests set. A \<^verbatim>\<open>nil\<close> block or address
  is \<open>None\<close>.\<close>

record networkConfiguration =
  BridgeName :: string
  AddressIPv4 :: "32 word cidr option"
  FixedCIDR :: "32 word cidr option"
  FixedCIDRv6 :: "128 word cidr option"
  EnableIPv6 :: bool
  EnableICC :: bool
  Mtu :: int
  DefaultGatewayIPv4 :: "32 word option"
  DefaultGatewayIPv6 :: "128 word option"
  DefaultBridge :: bool

text \<open>The zero value of the struct: what a Go literal leaves in the fields it does not
  name.\<close>

definition emptyNetworkConfiguration :: networkConfiguration where
  "emptyNetworkConfiguration =
     \<lparr>BridgeName = [], AddressIPv4 = None, FixedCIDR = None, FixedCIDRv6 = None,
      EnableIPv6 = False, EnableICC = False, Mtu = 0, DefaultGatewayIPv4 = None,
      DefaultGatewayIPv6 = None, DefaultBridge = False\<rparr>"

text \<open>\<^verbatim>\<open>DefaultBridgeName\<close>, a constant of the driver.\<close>

definition DefaultBridgeName :: string where
  "DefaultBridgeName = ''docker0''"

text \<open>
  Modelled from the spec: \<^verbatim>\<open>Validate\<close> of a network configuration is not among the
  sources; its tests \<^verbatim>\<open>TestValidateConfig\<close> and \<^verbatim>\<open>TestCreateFullOptions\<close> are. The checks
  are those of the specification's section 4.4, every failure a \<open>BadRequest\<close>: the MTU is
  not negative; a fixed sub-CIDR is contained in the address block; an explicit IPv4
  gateway lies inside the network's subnet; an explicit IPv6 gateway lies inside the v6
  fixed sub-CIDR, which must exist.

  For the IPv4 gateway the specification has two sentences. Section 4.2: "if an explicit
  gateway is configured it must lie inside the network's subnet (validated at
  configuration time)". Section 4.4: "it must lie inside the fixed sub-CIDR when one is
  set, else inside the full subnet". \<^verbatim>\<open>TestCreateFullOptions\<close> decides between them: it
  creates a network with the address block 172.16.0.10/16, the fixed sub-CIDR
  172.16.122.0/24 and the gateway 172.16.0.1 ("Default gw address does not belong to
  container network", its comment says) and requires the creation, which validates the
  configuration, to succeed. So the sentence of section 4.2 is the one modelled.
\<close>

definition Validate :: "networkConfiguration \<Rightarrow> errKind option" where
  "Validate c =
     (if Mtu c < 0 then Some BadRequest
      else if (case (AddressIPv4 c, FixedCIDR c) of
                 (Some n, Some f) \<Rightarrow> \<not> subnetOf f n
               | _ \<Rightarrow> False) then Some BadRequest
      else if (case (AddressIPv4 c, DefaultGatewayIPv4 c) of
                 (Some n, Some g) \<Rightarrow> \<not> contains n g
               | _ \<Rightarrow> False) then Some BadRequest
      else if (case DefaultGatewayIPv6 c of
                 None \<Rightarrow> False
               | Some g \<Rightarrow>
                   (case FixedCIDRv6 c of None \<Rightarrow> True | Some f \<Rightarrow> \<not> contains f g))
        then Some BadRequest
      else None)"

text \<open>The configuration of \<^verbatim>\<open>TestCreateFullOptions\<close>.\<close>

definition cfgFullOptions :: networkConfiguration where
  "cfgFullOptions = emptyNetworkConfiguration
     \<lparr>BridgeName := DefaultBridgeName,
      AddressIPv4 := Some \<lparr>cidrIP = ipv4 172 16 0 10, cidrLen = 16\<rparr>,
      FixedCIDR := Some \<lparr>cidrIP = ipv4 172 16 122 0, cidrLen = 24\<rparr>,
      DefaultGatewayIPv4 := Some (ipv4 172 16 0 1),
      EnableIPv6 := True,
      FixedCIDRv6 := Some \<lparr>cidrIP = ipv6 [0x2001, 0xdb8, 0, 0, 0, 0, 0, 0], cidrLen = 48\<rparr>\<rparr>"

text \<open>The configurations of \<^verbatim>\<open>TestValidateConfig\<close>: the bridge network 172.28.0.0/16 with
  a fixed sub-CIDR and, possibly, a gateway; and the IPv6 ones.\<close>

definition cfgFixed :: "32 word cidr \<Rightarrow> 32 word option \<Rightarrow> networkConfiguration" where
  "cfgFixed f g = emptyNetworkConfiguration
     \<lparr>AddressIPv4 := Some \<lparr>cidrIP = ipv4 172 28 0 0, cidrLen = 16\<rparr>,
      FixedCIDR := Some f,
      DefaultGatewayIPv4 := g\<rparr>"

definition cfgV6 :: "128 word cidr option \<Rightarrow> 128 word \<Rightarrow> networkConfiguration" where
  "cfgV6 f g = emptyNetworkConfiguration
     \<lparr>EnableIPv6 := True, FixedCIDRv6 := f, DefaultGatewayIPv6 := Some g\<rparr>"

section \<open>The bridge network driver: networks and their isolation\<close>

subsection \<open>Address pools\<close>

text \<open>The errors of the IPAM contract (\<^verbatim>\<open>ipamapi/contract.go\<close>).\<close>

datatype ipamError =
  ErrInvalidIpamService
  | ErrInvalidIpamConfigService
  | ErrIpamNotAvailable
  | ErrIpamInternalError
  | ErrInvalidAddressSpace
  | ErrInvalidPool
  | ErrInvalidSubPool
  | ErrInvalidRequest
  | ErrPoolNotFound
  | ErrOverlapPool
  | ErrNoAvailablePool
  | ErrNoAvailableIPs
  | ErrIPAlreadyAllocated
  | ErrIPOutOfRange
  | ErrPoolOverlap
  | ErrBadPool












subsection \<open>The forwarding table\<close>







subsection \<open>The driver\<close>






subsection \<open>The forwarding table as the driver's test reads it\<close>








































section \<open>Properties of the network router\<close>

subsection \<open>buildNetworkResource: one entry per container of a joined endpoint\<close>

lemma addContainer_apply:
  "addContainer ms fs e m k = (if joinedTo k e then Some (endpointResource ms fs e) else m k)"
  by (simp add: addContainer_def joinedTo_def split: option.splits)

lemma fold_addContainer:
  "fold (addContainer ms fs) eps m k =
     (case filter (joinedTo k) eps of
        [] \<Rightarrow> m k
      | x # xs \<Rightarrow> Some (endpointResource ms fs (last (x # xs))))"
proof (induction eps rule: rev_induct)
  case Nil
  show ?case by simp
next
  case (snoc e eps)
  have "fold (addContainer ms fs) (eps @ [e]) m k
          = addContainer ms fs e (fold (addContainer ms fs) eps m) k"
    by simp
  also have "\<dots> = (if joinedTo k e then Some (endpointResource ms fs e)
                   else fold (addContainer ms fs) eps m k)"
    by (rule addContainer_apply)
  finally show ?case using snoc
    by (cases "filter (joinedTo k) eps") simp_all
qed

lemma endpointResource_fields:
  "endpointResource ms fs e =
     \<lparr>EndpointID = epID e,
      MacAddress = (case infoIface (epInfo e) of
                      None \<Rightarrow> []
                    | Some i \<Rightarrow> (case ifMacAddress i of None \<Rightarrow> [] | Some mac \<Rightarrow> ms mac)),
      IPv4Address = (case infoIface (epInfo e) of
                       None \<Rightarrow> []
                     | Some i \<Rightarrow> if IP (ifAddress i) = [] then [] else fs (ifAddress i)),
      IPv6Address = (case infoIface (epInfo e) of
                       None \<Rightarrow> []
                     | Some i \<Rightarrow> if IP (ifAddressIPv6 i) = [] then [] else fs (ifAddressIPv6 i))\<rparr>"
  by (simp add: endpointResource_def Let_def split: option.splits)

lemma joinedContainers_Cons:
  "joinedContainers (e # eps) =
     (case infoSandbox (epInfo e) of None \<Rightarrow> [] | Some sb \<Rightarrow> [ContainerID sb]) @ joinedContainers eps"
  by (simp add: joinedContainers_def)

lemma joinedTo_in_joinedContainers:
  "e \<in> set eps \<Longrightarrow> joinedTo k e \<Longrightarrow> k \<in> set (joinedContainers eps)"
  by (induction eps) (auto simp add: joinedContainers_Cons joinedTo_def split: option.splits)

lemma filter_joinedTo_none:
  "k \<notin> set (joinedContainers eps) \<Longrightarrow> filter (joinedTo k) eps = []"
  using joinedTo_in_joinedContainers by (fastforce simp add: filter_empty_conv)

lemma filter_joinedTo_single:
  assumes "distinct (joinedContainers eps)" and "e \<in> set eps" and "joinedTo k e"
  shows "filter (joinedTo k) eps = [e]"
  using assms
proof (induction eps)
  case Nil
  then show ?case by simp
next
  case (Cons x eps)
  show ?case
  proof (cases "joinedTo k x")
    case True
    then have "k \<notin> set (joinedContainers eps)"
      using Cons.prems(1) by (auto simp add: joinedContainers_Cons joinedTo_def split: option.splits)
    then have none: "filter (joinedTo k) eps = []" by (rule filter_joinedTo_none)
    then have "e \<notin> set eps" using Cons.prems(3) by (auto simp add: filter_empty_conv)
    then have "e = x" using Cons.prems(2) by simp
    then show ?thesis using True none by simp
  next
    case False
    then have "e \<in> set eps" using Cons.prems(2,3) by auto
    moreover have "distinct (joinedContainers eps)"
      using Cons.prems(1) by (simp add: joinedContainers_Cons split: option.splits)
    ultimately show ?thesis using Cons.IH Cons.prems(3) False by simp
  qed
qed

text \<open>
  Claim C6, as stated, fails on the network \<open>nw2\<close>, whose two endpoints are joined to the
  same container: the map is keyed by the container ID, the second endpoint's entry
  replaces the first's, and the first endpoint, although joined, has no entry.
\<close>

theorem buildNetworkResource_per_endpoint_counterexample:
  "\<not> (\<forall>e \<in> set (nwEndpoints nw2).
        (\<exists>k er. the (Containers (buildNetworkResource macHex netHex (Some nw2))) k = Some er
                 \<and> EndpointID er = epID e)
        = (infoSandbox (epInfo e) \<noteq> None))"
proof -
  have m: "the (Containers (buildNetworkResource macHex netHex (Some nw2))) =
             [''c1'' \<mapsto> \<lparr>EndpointID = ''ep2'', MacAddress = [], IPv4Address = [], IPv6Address = []\<rparr>]"
    by (rule ext) (simp add: buildNetworkResource_def nw2_def addContainer_def endpointResource_def)
  show ?thesis
    unfolding m by (simp add: nw2_def split: if_splits)
qed

text \<open>
  Claim C6, amended. For a network \<open>nw\<close>, the summary built by
  \<^verbatim>\<open>buildNetworkResource\<close> has a \<open>Containers\<close> map \<open>m\<close> such that: a container ID \<open>k\<close> is
  a key of \<open>m\<close> iff some endpoint of the network is joined to a sandbox of container \<open>k\<close>;
  the entry under \<open>k\<close> is made from the last endpoint, in the order of
  \<^verbatim>\<open>nw.Endpoints()\<close>, that is joined to container \<open>k\<close>: it holds that endpoint's ID, the
  string of its MAC address when the interface has one, and the strings of its IPv4 and
  IPv6 addresses when they are not empty (empty strings otherwise, and when the endpoint
  has no interface); so an endpoint whose sandbox is \<^verbatim>\<open>nil\<close> contributes no entry. When
  the endpoints have distinct IDs and the joined ones distinct containers, an endpoint
  has an entry of its own iff it is joined.
\<close>

theorem buildNetworkResource_by_container:
  "\<exists>m. Containers (buildNetworkResource ms fs (Some nw)) = Some m \<and>
     (\<forall>k. (k \<in> dom m) = (\<exists>e \<in> set (nwEndpoints nw). joinedTo k e)) \<and>
     (\<forall>k er. m k = Some er \<longrightarrow>
        (\<exists>e \<in> set (nwEndpoints nw). joinedTo k e \<and>
           e = last (filter (joinedTo k) (nwEndpoints nw)) \<and>
           EndpointID er = epID e \<and>
           MacAddress er = (case infoIface (epInfo e) of
                              None \<Rightarrow> []
                            | Some i \<Rightarrow> (case ifMacAddress i of None \<Rightarrow> [] | Some mac \<Rightarrow> ms mac)) \<and>
           IPv4Address er = (case infoIface (epInfo e) of
                               None \<Rightarrow> []
                             | Some i \<Rightarrow> if IP (ifAddress i) = [] then [] else fs (ifAddress i)) \<and>
           IPv6Address er = (case infoIface (epInfo e) of
                               None \<Rightarrow> []
                             | Some i \<Rightarrow> if IP (ifAddressIPv6 i) = [] then []
                                         else fs (ifAddressIPv6 i)))) \<and>
     (distinct (map epID (nwEndpoints nw)) \<and> distinct (joinedContainers (nwEndpoints nw)) \<longrightarrow>
        (\<forall>e \<in> set (nwEndpoints nw).
           (\<exists>k er. m k = Some er \<and> EndpointID er = epID e) = (infoSandbox (epInfo e) \<noteq> None)))"
proof -
  let ?eps = "nwEndpoints nw"
  let ?m = "fold (addContainer ms fs) ?eps Map.empty"
  have c: "\<And>k. ?m k = (case filter (joinedTo k) ?eps of
                    [] \<Rightarrow> None
                  | x # xs \<Rightarrow> Some (endpointResource ms fs (last (x # xs))))"
    by (simp add: fold_addContainer)
  have a: "\<And>k. (k \<in> dom ?m) = (\<exists>e \<in> set ?eps. joinedTo k e)"
  proof -
    fix k
    show "(k \<in> dom ?m) = (\<exists>e \<in> set ?eps. joinedTo k e)"
    proof (cases "filter (joinedTo k) ?eps")
      case Nil
      then have "\<not> (\<exists>e \<in> set ?eps. joinedTo k e)"
        by (simp add: filter_empty_conv)
      then show ?thesis using Nil c[of k] by (simp add: dom_def)
    next
      case (Cons x xs)
      then have "x \<in> set (filter (joinedTo k) ?eps)" by simp
      then have "\<exists>e \<in> set ?eps. joinedTo k e" by auto
      then show ?thesis using Cons c[of k] by (simp add: dom_def)
    qed
  qed
  have b0: "\<And>k er. ?m k = Some er \<Longrightarrow>
        last (filter (joinedTo k) ?eps) \<in> set ?eps \<and>
        joinedTo k (last (filter (joinedTo k) ?eps)) \<and>
        er = endpointResource ms fs (last (filter (joinedTo k) ?eps))"
  proof -
    fix k er
    assume h: "?m k = Some er"
    show "last (filter (joinedTo k) ?eps) \<in> set ?eps \<and>
        joinedTo k (last (filter (joinedTo k) ?eps)) \<and>
        er = endpointResource ms fs (last (filter (joinedTo k) ?eps))"
    proof (cases "filter (joinedTo k) ?eps")
      case Nil
      then show ?thesis using h c[of k] by simp
    next
      case (Cons x xs)
      then have "last (filter (joinedTo k) ?eps) \<in> set (filter (joinedTo k) ?eps)"
        by (metis last_in_set list.distinct(1))
      then have "last (filter (joinedTo k) ?eps) \<in> set ?eps
                 \<and> joinedTo k (last (filter (joinedTo k) ?eps))" by simp
      moreover have "er = endpointResource ms fs (last (filter (joinedTo k) ?eps))"
        using h c[of k] Cons by simp
      ultimately show ?thesis by blast
    qed
  qed
  have b: "\<And>k er. ?m k = Some er \<Longrightarrow>
        (\<exists>e \<in> set ?eps. joinedTo k e \<and>
           e = last (filter (joinedTo k) ?eps) \<and>
           EndpointID er = epID e \<and>
           MacAddress er = (case infoIface (epInfo e) of
                              None \<Rightarrow> []
                            | Some i \<Rightarrow> (case ifMacAddress i of None \<Rightarrow> [] | Some mac \<Rightarrow> ms mac)) \<and>
           IPv4Address er = (case infoIface (epInfo e) of
                               None \<Rightarrow> []
                             | Some i \<Rightarrow> if IP (ifAddress i) = [] then [] else fs (ifAddress i)) \<and>
           IPv6Address er = (case infoIface (epInfo e) of
                               None \<Rightarrow> []
                             | Some i \<Rightarrow> if IP (ifAddressIPv6 i) = [] then []
                                         else fs (ifAddressIPv6 i)))"
  proof -
    fix k er
    assume h: "?m k = Some er"
    let ?e = "last (filter (joinedTo k) ?eps)"
    have e: "?e \<in> set ?eps" and j: "joinedTo k ?e" and er: "er = endpointResource ms fs ?e"
      using b0[OF h] by simp_all
    have f: "EndpointID er = epID ?e \<and>
           MacAddress er = (case infoIface (epInfo ?e) of
                              None \<Rightarrow> []
                            | Some i \<Rightarrow> (case ifMacAddress i of None \<Rightarrow> [] | Some mac \<Rightarrow> ms mac)) \<and>
           IPv4Address er = (case infoIface (epInfo ?e) of
                               None \<Rightarrow> []
                             | Some i \<Rightarrow> if IP (ifAddress i) = [] then [] else fs (ifAddress i)) \<and>
           IPv6Address er = (case infoIface (epInfo ?e) of
                               None \<Rightarrow> []
                             | Some i \<Rightarrow> if IP (ifAddressIPv6 i) = [] then []
                                         else fs (ifAddressIPv6 i))"
      unfolding er endpointResource_fields by simp
    show "\<exists>e \<in> set ?eps. joinedTo k e \<and>
           e = last (filter (joinedTo k) ?eps) \<and>
           EndpointID er = epID e \<and>
           MacAddress er = (case infoIface (epInfo e) of
                              None \<Rightarrow> []
                            | Some i \<Rightarrow> (case ifMacAddress i of None \<Rightarrow> [] | Some mac \<Rightarrow> ms mac)) \<and>
           IPv4Address er = (case infoIface (epInfo e) of
                               None \<Rightarrow> []
                             | Some i \<Rightarrow> if IP (ifAddress i) = [] then [] else fs (ifAddress i)) \<and>
           IPv6Address er = (case infoIface (epInfo e) of
                               None \<Rightarrow> []
                             | Some i \<Rightarrow> if IP (ifAddressIPv6 i) = [] then []
                                         else fs (ifAddressIPv6 i))"
      by (rule bexI[OF _ e]) (use j f in blast)
  qed
  have d: "distinct (map epID ?eps) \<and> distinct (joinedContainers ?eps) \<Longrightarrow>
        (\<forall>e \<in> set ?eps.
           (\<exists>k er. ?m k = Some er \<and> EndpointID er = epID e) = (infoSandbox (epInfo e) \<noteq> None))"
  proof
    assume dd: "distinct (map epID ?eps) \<and> distinct (joinedContainers ?eps)"
    then have inj: "inj_on epID (set ?eps)" by (simp add: distinct_map)
    fix e assume e: "e \<in> set ?eps"
    show "(\<exists>k er. ?m k = Some er \<and> EndpointID er = epID e) = (infoSandbox (epInfo e) \<noteq> None)"
    proof
      assume "\<exists>k er. ?m k = Some er \<and> EndpointID er = epID e"
      then obtain k er where h: "?m k = Some er" and i: "EndpointID er = epID e" by blast
      let ?e = "last (filter (joinedTo k) ?eps)"
      have e': "?e \<in> set ?eps" and j: "joinedTo k ?e" and er: "er = endpointResource ms fs ?e"
        using b0[OF h] by simp_all
      have "epID ?e = epID e" using i er by (simp add: endpointResource_fields)
      then have "?e = e" using inj e e' by (simp add: inj_on_def)
      then show "infoSandbox (epInfo e) \<noteq> None"
        using j by (auto simp add: joinedTo_def split: option.splits)
    next
      assume "infoSandbox (epInfo e) \<noteq> None"
      then obtain sb where sb: "infoSandbox (epInfo e) = Some sb" by blast
      then have j: "joinedTo (ContainerID sb) e" by (simp add: joinedTo_def)
      have "filter (joinedTo (ContainerID sb)) ?eps = [e]"
        using filter_joinedTo_single[OF _ e j] dd by simp
      then have "?m (ContainerID sb) = Some (endpointResource ms fs e)"
        using c[of "ContainerID sb"] by simp
      moreover have "EndpointID (endpointResource ms fs e) = epID e"
        by (simp add: endpointResource_fields)
      ultimately show "\<exists>k er. ?m k = Some er \<and> EndpointID er = epID e" by blast
    qed
  qed
  have "Containers (buildNetworkResource ms fs (Some nw)) = Some ?m"
    by (simp add: buildNetworkResource_def)
  then show ?thesis using a b d by blast
qed

text \<open>On the network \<open>nw3\<close>: the entries of the containers \<open>c1\<close> and \<open>c3\<close>, with the
  strings of the first endpoint's MAC, IPv4 and IPv6 addresses; none made from the
  endpoint that is not joined.\<close>

theorem buildNetworkResource_by_container_witness:
  "the (Containers (buildNetworkResource macHex netHex (Some nw3))) ''c1''
     = Some \<lparr>EndpointID = ''ep1'', MacAddress = ''02:42:ac:11:00:02'',
              IPv4Address = ''ac110002/ffff0000'',
              IPv6Address =
                ''fe800000000000000000000000000042/ffffffffffffffff0000000000000000''\<rparr>
   \<and> the (Containers (buildNetworkResource macHex netHex (Some nw3))) ''c3''
     = Some \<lparr>EndpointID = ''ep3'', MacAddress = [], IPv4Address = [], IPv6Address = []\<rparr>
   \<and> dom (the (Containers (buildNetworkResource macHex netHex (Some nw3)))) = {''c1'', ''c3''}"
proof -
  obtain m where m: "Containers (buildNetworkResource macHex netHex (Some nw3)) = Some m"
    and d: "\<And>k. (k \<in> dom m) = (\<exists>e \<in> set (nwEndpoints nw3). joinedTo k e)"
    and v: "\<And>k er. m k = Some er \<Longrightarrow>
        (\<exists>e \<in> set (nwEndpoints nw3). joinedTo k e \<and>
           e = last (filter (joinedTo k) (nwEndpoints nw3)) \<and>
           EndpointID er = epID e \<and>
           MacAddress er = (case infoIface (epInfo e) of
                              None \<Rightarrow> []
                            | Some i \<Rightarrow> (case ifMacAddress i of None \<Rightarrow> [] | Some mac \<Rightarrow> macHex mac)) \<and>
           IPv4Address er = (case infoIface (epInfo e) of
                               None \<Rightarrow> []
                             | Some i \<Rightarrow> if IP (ifAddress i) = [] then [] else netHex (ifAddress i)) \<and>
           IPv6Address er = (case infoIface (epInfo e) of
                               None \<Rightarrow> []
                             | Some i \<Rightarrow> if IP (ifAddressIPv6 i) = [] then []
                                         else netHex (ifAddressIPv6 i)))"
    using buildNetworkResource_by_container[of macHex netHex nw3] by blast
  have dm: "dom m = {''c1'', ''c3''}"
  proof (rule set_eqI)
    fix k
    show "(k \<in> dom m) = (k \<in> {''c1'', ''c3''})"
      unfolding d by (auto simp add: nw3_def joinedTo_def)
  qed
  have "''c1'' \<in> dom m" and "''c3'' \<in> dom m"
    unfolding dm by simp_all
  then obtain er1 er3 where e1: "m ''c1'' = Some er1" and e3: "m ''c3'' = Some er3"
    unfolding dom_def by blast
  have "er1 = \<lparr>EndpointID = ''ep1'', MacAddress = ''02:42:ac:11:00:02'',
              IPv4Address = ''ac110002/ffff0000'',
              IPv6Address =
                ''fe800000000000000000000000000042/ffffffffffffffff0000000000000000''\<rparr>"
    using v[OF e1]
    by (cases er1) (simp add: nw3_def joinedTo_def macHex_def netHex_def hexByte_def)
  moreover have "er3 = \<lparr>EndpointID = ''ep3'', MacAddress = [], IPv4Address = [], IPv6Address = []\<rparr>"
    using v[OF e3]
    by (cases er3) (simp add: nw3_def joinedTo_def)
  ultimately show ?thesis using m dm e1 e3 by simp
qed

subsection \<open>findNetwork and the empty name\<close>

text \<open>
  Claim C10. A lookup by name of the empty string is the controller's lookup of its
  configured default network name: it gives what the lookup by name of that default name
  gives, so it finds the default network whenever the controller has a network of that
  name.
\<close>

theorem findNetwork_empty_name:
  "findNetwork ops c [] byName = NetworkByName ops c (DefaultNetwork (Config ops c)) \<and>
   findNetwork ops c [] byName = findNetwork ops c (DefaultNetwork (Config ops c)) byName \<and>
   (\<forall>nw. NetworkByName ops c (DefaultNetwork (Config ops c)) = (Some nw, None) \<longrightarrow>
      findNetwork ops c [] byName = (Some nw, None))"
  by (simp add: findNetwork_def byName_def byID_def)

text \<open>In the registry \<open>reg1\<close> the empty name finds the network named \<open>bridge\<close>.\<close>

theorem findNetwork_empty_name_witness:
  "findNetwork regOps reg1 [] byName =
     (Some \<lparr>nwName = ''bridge'', nwID = ''id'', nwType = ''bridge'', nwEndpoints = []\<rparr>, None)"
  using findNetwork_empty_name[of regOps reg1]
  by (simp add: regOps_def reg1_def regNetworkByName_def)

subsection \<open>postNetworkCreate and a name that is taken\<close>

lemma processCreateDefaults_name: "ncName (processCreateDefaults ops c create) = ncName create"
  by (simp add: processCreateDefaults_def Let_def)

lemma processCreateDefaults_driver:
  "ncDriver (processCreateDefaults ops c create) =
     (if ncDriver create = [] then DefaultDriver (Config ops c) else ncDriver create)"
  by (simp add: processCreateDefaults_def Let_def)

lemma processCreateDefaults_options:
  "parseOptions (Options (processCreateDefaults ops c create)) =
     [NetworkOptionGeneric
        ((case Options create of None \<Rightarrow> Map.empty | Some m \<Rightarrow> m)
           (GenericData \<mapsto>
              (case (case Options create of None \<Rightarrow> Map.empty | Some m \<Rightarrow> m) GenericData of
                 None \<Rightarrow> JObject []
               | Some g \<Rightarrow> g)))]"
  by (simp add: processCreateDefaults_def parseOptions_def Let_def)

lemma createNetwork_existing:
  assumes "findNetwork ops c (ncName create) byName = (Some nw, err)"
  shows "createNetwork ops c create =
     (if err \<noteq> None \<and> \<not> isErrNoSuchNetwork (the err) then (Failed (the err), c)
      else if CheckDuplicate create then (Failed (NetworkNameError (ncName create)), c)
      else (case NewNetwork ops c
                   (if ncDriver create = [] then DefaultDriver (Config ops c) else ncDriver create)
                   (ncName create)
                   [NetworkOptionGeneric
                      ((case Options create of None \<Rightarrow> Map.empty | Some m \<Rightarrow> m)
                         (GenericData \<mapsto>
                            (case (case Options create of None \<Rightarrow> Map.empty | Some m \<Rightarrow> m)
                                    GenericData of
                               None \<Rightarrow> JObject []
                             | Some g \<Rightarrow> g)))] of
                 ((_, Some err'), c') \<Rightarrow> (Failed err', c')
               | ((None, None), c') \<Rightarrow> (Panicked, c')
               | ((Some nw', None), c') \<Rightarrow>
                   (Wrote 201 \<lparr>respID = nwID nw', Warning = duplicateWarning nw\<rparr>, c')))"
  using assms
  by (simp add: createNetwork_def Let_def processCreateDefaults_name
      processCreateDefaults_driver processCreateDefaults_options)

text \<open>
  Claim C9, as stated, fails on a controller whose \<^verbatim>\<open>NewNetwork\<close> refuses a name that is
  taken: the handler's lookup finds the network named \<open>test\<close>, the request does not set
  \<open>CheckDuplicate\<close>, and the handler fails with the name error all the same, the
  controller holding no second network of that name.
\<close>

theorem postNetworkCreate_strict_controller_counterexample:
  "findNetwork strictOps reg1 ''test'' byName =
     (Some \<lparr>nwName = ''test'', nwID = ''idx'', nwType = ''bridge'', nwEndpoints = []\<rparr>, None)
   \<and> \<not> CheckDuplicate (createTest False)
   \<and> postNetworkCreate strictOps reg1 (req1 False) = (Failed (NetworkNameError ''test''), reg1)"
  by (simp add: findNetwork_def byName_def byID_def strictOps_def reg1_def regNetworkByName_def
      createTest_def req1_def postNetworkCreate_def createNetwork_def isErrNoSuchNetwork_def
      processCreateDefaults_def parseOptions_def strictNewNetwork_def Let_def)

text \<open>
  Claim C9, amended. Let a create request decode to \<open>create\<close>, and let the handler's
  lookup by name return a network \<open>nw\<close>. If the lookup returns with it an error that is
  not \<^verbatim>\<open>ErrNoSuchNetwork\<close>, the handler fails with that error. Otherwise, if the request
  sets \<open>CheckDuplicate\<close> the handler fails with the name error, without calling
  \<^verbatim>\<open>NewNetwork\<close>: the controller is as it was. If not, the handler calls
  \<^verbatim>\<open>NewNetwork\<close> with the requested name (and the request's driver, or the default
  driver when it names none, and the generic options) and leaves what that call leaves: the error \<^verbatim>\<open>NewNetwork\<close> returns, if it returns one,
  and otherwise status 201 with the new network's ID and the warning that names the
  existing network. Whether a second network of the name then exists, and whether the
  call fails with a name error of its own, is the controller's doing. The server's older
  handler does the same on a daemon that has a controller.
\<close>

theorem postNetworkCreate_existing_name:
  assumes "ParseForm r = None" and "CheckForJSON r = None" and "Decode r = Inr create"
    and "findNetwork ops c (ncName create) byName = (Some nw, err)"
  shows "postNetworkCreate ops c r =
     (if err \<noteq> None \<and> \<not> isErrNoSuchNetwork (the err) then (Failed (the err), c)
      else if CheckDuplicate create then (Failed (NetworkNameError (ncName create)), c)
      else (case NewNetwork ops c
                   (if ncDriver create = [] then DefaultDriver (Config ops c) else ncDriver create)
                   (ncName create)
                   [NetworkOptionGeneric
                      ((case Options create of None \<Rightarrow> Map.empty | Some m \<Rightarrow> m)
                         (GenericData \<mapsto>
                            (case (case Options create of None \<Rightarrow> Map.empty | Some m \<Rightarrow> m)
                                    GenericData of
                               None \<Rightarrow> JObject []
                             | Some g \<Rightarrow> g)))] of
                 ((_, Some err'), c') \<Rightarrow> (Failed err', c')
               | ((None, None), c') \<Rightarrow> (Panicked, c')
               | ((Some nw', None), c') \<Rightarrow>
                   (Wrote 201 \<lparr>respID = nwID nw', Warning = duplicateWarning nw\<rparr>, c')))
     \<and> Server_postNetworkCreate ops (Some c) r =
           (fst (postNetworkCreate ops c r), Some (snd (postNetworkCreate ops c r)))"
proof -
  have p: "postNetworkCreate ops c r = createNetwork ops c create"
    using assms(1-3) by (simp add: postNetworkCreate_def)
  have s: "Server_postNetworkCreate ops (Some c) r =
             (fst (createNetwork ops c create), Some (snd (createNetwork ops c create)))"
    using assms(1-3) by (simp add: Server_postNetworkCreate_def split: prod.splits)
  show ?thesis
    unfolding s p using createNetwork_existing[OF assms(4)] by simp
qed

text \<open>
  On the registry \<open>reg1\<close>, which holds a network named \<open>test\<close>: with \<open>CheckDuplicate\<close>
  the request fails and the registry is unchanged; without it, on the controller that
  appends, the handler answers 201 with the warning and the registry then holds two
  networks named \<open>test\<close>; on the controller that refuses, it fails with that
  controller's error.
\<close>

theorem postNetworkCreate_existing_name_witness:
  "postNetworkCreate regOps reg1 (req1 True) = (Failed (NetworkNameError ''test''), reg1)
   \<and> fst (postNetworkCreate regOps reg1 (req1 False)) =
       Wrote 201 \<lparr>respID = ''idxx'',
                  Warning = ''Network with name test (id : idx) already exists''\<rparr>
   \<and> map nwName (regNetworks (snd (postNetworkCreate regOps reg1 (req1 False))))
       = [''bridge'', ''test'', ''test'']
   \<and> postNetworkCreate strictOps reg1 (req1 False) = (Failed (NetworkNameError ''test''), reg1)"
proof -
  let ?nw = "\<lparr>nwName = ''test'', nwID = ''idx'', nwType = ''bridge'', nwEndpoints = []\<rparr>"
  have f: "findNetwork regOps reg1 ''test'' byName = (Some ?nw, None)"
    by (simp add: findNetwork_def byName_def byID_def regOps_def reg1_def regNetworkByName_def)
  have g: "findNetwork strictOps reg1 ''test'' byName = (Some ?nw, None)"
    by (simp add: findNetwork_def byName_def byID_def strictOps_def reg1_def regNetworkByName_def)
  have a: "postNetworkCreate regOps reg1 (req1 True) = (Failed (NetworkNameError ''test''), reg1)"
    using postNetworkCreate_existing_name[of "req1 True" "createTest True" regOps reg1 ?nw] f
    by (simp add: req1_def createTest_def)
  have b: "postNetworkCreate regOps reg1 (req1 False) =
             (Wrote 201 \<lparr>respID = ''idxx'',
                  Warning = ''Network with name test (id : idx) already exists''\<rparr>,
              reg1\<lparr>regNetworks := regNetworks reg1 @
                 [\<lparr>nwName = ''test'', nwID = ''idxx'', nwType = ''bridge'', nwEndpoints = []\<rparr>]\<rparr>)"
    using postNetworkCreate_existing_name[of "req1 False" "createTest False" regOps reg1 ?nw] f
    by (simp add: req1_def createTest_def regOps_def reg1_def regNewNetwork_def Let_def
        duplicateWarning_def)
  have c: "postNetworkCreate strictOps reg1 (req1 False) = (Failed (NetworkNameError ''test''), reg1)"
    using postNetworkCreate_existing_name[of "req1 False" "createTest False" strictOps reg1 ?nw] g
    by (simp add: req1_def createTest_def strictOps_def reg1_def strictNewNetwork_def)
  show ?thesis using a b c by (simp add: reg1_def)
qed

section \<open>Properties of the configuration's validation\<close>

lemma drop_bit_eq_mono:
  fixes a b :: "'a::len word"
  assumes "k \<le> l" and "drop_bit k a = drop_bit k b"
  shows "drop_bit l a = drop_bit l b"
proof -
  have "drop_bit l a = drop_bit (l - k) (drop_bit k a)"
    using assms(1) by (simp add: drop_bit_drop_bit)
  also have "\<dots> = drop_bit (l - k) (drop_bit k b)"
    using assms(2) by simp
  also have "\<dots> = drop_bit l b"
    using assms(1) by (simp add: drop_bit_drop_bit)
  finally show ?thesis .
qed

text \<open>Read as numbers: the address lies in the aligned run of \<open>2 ^ hostBits c\<close>
  addresses that holds the block's own address.\<close>

lemma drop_bit_eq_iff_div:
  fixes a b :: "'a::len word"
  shows "(drop_bit h a = drop_bit h b) = (unat a div 2 ^ h = unat b div 2 ^ h)"
proof -
  have "(drop_bit h a = drop_bit h b) = (unat (drop_bit h a) = unat (drop_bit h b))"
    by (simp only: word_unat_eq_iff)
  also have "\<dots> = (drop_bit h (unat a) = drop_bit h (unat b))"
    by (simp only: unat_drop_bit_eq)
  also have "\<dots> = (unat a div 2 ^ h = unat b div 2 ^ h)"
    by (simp only: drop_bit_eq_div)
  finally show ?thesis .
qed

lemma contains_div:
  "contains c a = (unat a div 2 ^ hostBits c = unat (cidrIP c) div 2 ^ hostBits c)"
  by (simp only: contains_def drop_bit_eq_iff_div)

lemma subnetOf_sound:
  assumes "subnetOf f n" and "contains f a"
  shows "contains n a"
  using assms unfolding subnetOf_def contains_def
  by (metis drop_bit_eq_mono)

text \<open>If every address of \<open>f\<close> is one of \<open>n\<close>, the prefix of \<open>f\<close> is the longer one:
  otherwise flipping the last prefix bit of \<open>n\<close> in the address of \<open>f\<close> gives an address
  of \<open>f\<close> outside \<open>n\<close>.\<close>

lemma subnetOf_complete:
  fixes f n :: "('a::len) word cidr"
  assumes "\<forall>a. contains f a \<longrightarrow> contains n a"
  shows "subnetOf f n"
proof -
  have c: "contains n (cidrIP f)"
    using assms by (simp add: contains_def)
  have "hostBits f \<le> hostBits n"
  proof (rule ccontr)
    assume "\<not> hostBits f \<le> hostBits n"
    then have lt: "hostBits n < hostBits f" by simp
    have hf: "hostBits f \<le> LENGTH('a)" by (simp add: hostBits_def)
    let ?i = "hostBits n"
    let ?a = "cidrIP f XOR push_bit ?i 1"
    have i: "?i < LENGTH('a)" using lt hf by simp
    have "drop_bit (hostBits f) ?a = drop_bit (hostBits f) (cidrIP f)"
      using lt by (intro bit_word_eqI) (auto simp add: bit_simps)
    then have "contains f ?a" by (simp add: contains_def)
    then have "contains n ?a" using assms by blast
    then have "drop_bit ?i ?a = drop_bit ?i (cidrIP f)"
      using c by (simp add: contains_def)
    then have "bit (drop_bit ?i ?a) 0 = bit (drop_bit ?i (cidrIP f)) 0" by simp
    then show False using i by (simp add: bit_simps)
  qed
  then show ?thesis using c by (simp add: subnetOf_def)
qed

lemma subnetOf_iff: "subnetOf f n = (\<forall>a. contains f a \<longrightarrow> contains n a)"
  using subnetOf_sound subnetOf_complete by blast

lemma Validate_None_iff:
  "(Validate c = None) =
     (0 \<le> Mtu c \<and>
      (\<forall>n f. AddressIPv4 c = Some n \<and> FixedCIDR c = Some f \<longrightarrow> subnetOf f n) \<and>
      (\<forall>n g. AddressIPv4 c = Some n \<and> DefaultGatewayIPv4 c = Some g \<longrightarrow> contains n g) \<and>
      (\<forall>g. DefaultGatewayIPv6 c = Some g \<longrightarrow>
         (\<exists>f. FixedCIDRv6 c = Some f \<and> contains f g)))"
  by (auto simp add: Validate_def split: option.splits)

lemma Validate_BadRequest: "Validate c \<noteq> None \<Longrightarrow> Validate c = Some BadRequest"
  by (simp add: Validate_def split: if_splits)

text \<open>
  Claim C4, as stated, fails on the configuration of \<^verbatim>\<open>TestCreateFullOptions\<close>: a fixed
  sub-CIDR is set, the explicit gateway 172.16.0.1 lies outside it, and the configuration
  is valid all the same, as the creation of the network in that test requires.
\<close>

theorem Validate_gateway_outside_fixed_counterexample:
  "FixedCIDR cfgFullOptions = Some \<lparr>cidrIP = ipv4 172 16 122 0, cidrLen = 24\<rparr>
   \<and> DefaultGatewayIPv4 cfgFullOptions = Some (ipv4 172 16 0 1)
   \<and> \<not> contains \<lparr>cidrIP = ipv4 172 16 122 0, cidrLen = 24\<rparr> (ipv4 172 16 0 1)
   \<and> Validate cfgFullOptions = None"
  by (simp add: cfgFullOptions_def emptyNetworkConfiguration_def Validate_def subnetOf_def
      contains_def hostBits_def ipv4_def ipv6_def)

text \<open>
  Claim C4, amended. An explicit IPv4 gateway is checked against the network's full
  subnet, whether or not a fixed sub-CIDR is set: a gateway outside the address block is
  refused with \<open>BadRequest\<close>. An explicit IPv6 gateway is refused with \<open>BadRequest\<close> when
  no v6 fixed sub-CIDR is configured or when it lies outside the one configured. And
  validation succeeds iff the MTU is not negative, a fixed sub-CIDR (when both it and the
  address block are given) is contained in the block, an explicit IPv4 gateway (when an
  address block is given) lies inside the block, and an explicit IPv6 gateway lies inside
  a configured v6 fixed sub-CIDR.
\<close>

theorem Validate_gateway:
  "(AddressIPv4 c = Some n \<and> DefaultGatewayIPv4 c = Some g \<and> \<not> contains n g
      \<longrightarrow> Validate c = Some BadRequest) \<and>
   (DefaultGatewayIPv6 c = Some g6 \<and> (\<forall>f6. FixedCIDRv6 c = Some f6 \<longrightarrow> \<not> contains f6 g6)
      \<longrightarrow> Validate c = Some BadRequest) \<and>
   ((Validate c = None) =
     (0 \<le> Mtu c \<and>
      (\<forall>n f. AddressIPv4 c = Some n \<and> FixedCIDR c = Some f \<longrightarrow>
         (\<forall>a. contains f a \<longrightarrow> contains n a)) \<and>
      (\<forall>n g. AddressIPv4 c = Some n \<and> DefaultGatewayIPv4 c = Some g \<longrightarrow> contains n g) \<and>
      (\<forall>g. DefaultGatewayIPv6 c = Some g \<longrightarrow>
         (\<exists>f. FixedCIDRv6 c = Some f \<and> contains f g))))"
proof -
  have a: "AddressIPv4 c = Some n \<and> DefaultGatewayIPv4 c = Some g \<and> \<not> contains n g
      \<Longrightarrow> Validate c = Some BadRequest"
    using Validate_None_iff[of c] Validate_BadRequest[of c] by blast
  have b: "DefaultGatewayIPv6 c = Some g6 \<and> (\<forall>f6. FixedCIDRv6 c = Some f6 \<longrightarrow> \<not> contains f6 g6)
      \<Longrightarrow> Validate c = Some BadRequest"
    using Validate_None_iff[of c] Validate_BadRequest[of c] by blast
  show ?thesis
    using a b Validate_None_iff[of c] unfolding subnetOf_iff by blast
qed

text \<open>
  The gateways of \<^verbatim>\<open>TestValidateConfig\<close>: in the network 172.28.0.0/16 with the fixed
  sub-CIDR 172.28.0.0/17, the gateway 172.27.30.234 is refused and 172.28.30.234 passes;
  with the v6 fixed sub-CIDR 2001:1234:ae:b004::/64 the gateway
  2001:1234:ac:b004::bad:a55 is refused and 2001:1234:ae:b004::bad:a55 passes; without a
  v6 fixed sub-CIDR the latter is refused.
\<close>

theorem Validate_gateway_witness:
  "Validate (cfgFixed \<lparr>cidrIP = ipv4 172 28 0 0, cidrLen = 17\<rparr> (Some (ipv4 172 27 30 234)))
     = Some BadRequest
   \<and> Validate (cfgFixed \<lparr>cidrIP = ipv4 172 28 0 0, cidrLen = 17\<rparr> (Some (ipv4 172 28 30 234)))
     = None
   \<and> Validate (cfgV6 (Some \<lparr>cidrIP = ipv6 [0x2001, 0x1234, 0xae, 0xb004, 0, 0, 0, 0], cidrLen = 64\<rparr>)
        (ipv6 [0x2001, 0x1234, 0xac, 0xb004, 0, 0, 0xbad, 0xa55])) = Some BadRequest
   \<and> Validate (cfgV6 (Some \<lparr>cidrIP = ipv6 [0x2001, 0x1234, 0xae, 0xb004, 0, 0, 0, 0], cidrLen = 64\<rparr>)
        (ipv6 [0x2001, 0x1234, 0xae, 0xb004, 0, 0, 0xbad, 0xa55])) = None
   \<and> Validate (cfgV6 None (ipv6 [0x2001, 0x1234, 0xae, 0xb004, 0, 0, 0xbad, 0xa55]))
     = Some BadRequest"
proof -
  let ?n = "\<lparr>cidrIP = ipv4 172 28 0 0, cidrLen = 16\<rparr> :: 32 word cidr"
  let ?f = "\<lparr>cidrIP = ipv4 172 28 0 0, cidrLen = 17\<rparr> :: 32 word cidr"
  let ?f6 = "\<lparr>cidrIP = ipv6 [0x2001, 0x1234, 0xae, 0xb004, 0, 0, 0, 0], cidrLen = 64\<rparr>
               :: 128 word cidr"
  let ?bad6 = "ipv6 [0x2001, 0x1234, 0xac, 0xb004, 0, 0, 0xbad, 0xa55]"
  let ?good6 = "ipv6 [0x2001, 0x1234, 0xae, 0xb004, 0, 0, 0xbad, 0xa55]"
  have 1: "Validate (cfgFixed ?f (Some (ipv4 172 27 30 234))) = Some BadRequest"
    using Validate_gateway[of "cfgFixed ?f (Some (ipv4 172 27 30 234))" ?n "ipv4 172 27 30 234"]
    by (simp add: cfgFixed_def emptyNetworkConfiguration_def contains_def hostBits_def ipv4_def)
  have 2: "Validate (cfgFixed ?f (Some (ipv4 172 28 30 234))) = None"
    using Validate_gateway[of "cfgFixed ?f (Some (ipv4 172 28 30 234))"]
    unfolding subnetOf_iff[symmetric]
    by (simp add: cfgFixed_def emptyNetworkConfiguration_def subnetOf_def contains_def
        hostBits_def ipv4_def)
  have 3: "Validate (cfgV6 (Some ?f6) ?bad6) = Some BadRequest"
    using Validate_gateway[of "cfgV6 (Some ?f6) ?bad6" _ _ ?bad6]
    by (simp add: cfgV6_def emptyNetworkConfiguration_def contains_def hostBits_def ipv6_def)
  have 4: "Validate (cfgV6 (Some ?f6) ?good6) = None"
    using Validate_gateway[of "cfgV6 (Some ?f6) ?good6"]
    by (simp add: cfgV6_def emptyNetworkConfiguration_def contains_def hostBits_def ipv6_def)
  have 5: "Validate (cfgV6 None ?good6) = Some BadRequest"
    using Validate_gateway[of "cfgV6 None ?good6" _ _ ?good6]
    by (simp add: cfgV6_def emptyNetworkConfiguration_def)
  show ?thesis using 1 2 3 4 5 by simp
qed

section \<open>Properties of the isolation rules\<close>

subsection \<open>Pools and rules\<close>



















subsection \<open>Deleting a network\<close>





subsection \<open>Counting the rules of a subnet\<close>












subsection \<open>The text of a block\<close>







subsection \<open>Matches in a listing\<close>










subsection \<open>The rule count after any sequence of calls\<close>

























end
